theory Spec2Isabelle
  imports Complex_Main "HOL-Library.Multiset" "HOL-Library.Product_Lexorder"
begin

section \<open>Cells: float64 values with their special values\<close>

text \<open>
  A cell of a pandas table is a float64.  The model keeps the three special values of
  IEEE arithmetic that the operations of \<^verbatim>\<open>services.py\<close> can produce (a division by
  zero gives an infinity or NaN, never an exception) and takes the finite values to be
  real numbers: rounding error, overflow and the sign of zero are not modelled.
\<close>

datatype f64 = Num real | PosInf | NegInf | NaN

fun fneg :: "f64 \<Rightarrow> f64" where
  "fneg (Num a) = Num (- a)"
| "fneg PosInf = NegInf"
| "fneg NegInf = PosInf"
| "fneg NaN = NaN"

fun fadd :: "f64 \<Rightarrow> f64 \<Rightarrow> f64" where
  "fadd (Num a) (Num b) = Num (a + b)"
| "fadd NaN y = NaN"
| "fadd x NaN = NaN"
| "fadd PosInf NegInf = NaN"
| "fadd NegInf PosInf = NaN"
| "fadd PosInf y = PosInf"
| "fadd x PosInf = PosInf"
| "fadd NegInf y = NegInf"
| "fadd x NegInf = NegInf"

definition fsub :: "f64 \<Rightarrow> f64 \<Rightarrow> f64" where
  "fsub x y = fadd x (fneg y)"

fun fsgn :: "f64 \<Rightarrow> int" where
  "fsgn (Num a) = (if 0 < a then 1 else if a < 0 then - 1 else 0)"
| "fsgn PosInf = 1"
| "fsgn NegInf = - 1"
| "fsgn NaN = 0"

definition signed_inf :: "int \<Rightarrow> f64" where
  "signed_inf s = (if s = 0 then NaN else if 0 < s then PosInf else NegInf)"

fun fmul :: "f64 \<Rightarrow> f64 \<Rightarrow> f64" where
  "fmul (Num a) (Num b) = Num (a * b)"
| "fmul NaN y = NaN"
| "fmul x NaN = NaN"
| "fmul x y = signed_inf (fsgn x * fsgn y)"

fun fdiv :: "f64 \<Rightarrow> f64 \<Rightarrow> f64" where
  "fdiv (Num a) (Num b) = (if b \<noteq> 0 then Num (a / b) else signed_inf (fsgn (Num a)))"
| "fdiv NaN y = NaN"
| "fdiv x NaN = NaN"
| "fdiv (Num a) y = Num 0"
| "fdiv x (Num b) = (if b < 0 then fneg x else x)"
| "fdiv x y = NaN"

fun fsqrt :: "f64 \<Rightarrow> f64" where
  "fsqrt (Num a) = (if a < 0 then NaN else Num (sqrt a))"
| "fsqrt PosInf = PosInf"
| "fsqrt NegInf = NaN"
| "fsqrt NaN = NaN"

text \<open>
  The order of float64 values as a key into a linear order: NaN is given the least key,
  so that a descending sort with NaN last is non-increasing in the key.
\<close>

fun fkey :: "f64 \<Rightarrow> int \<times> real" where
  "fkey NaN = (- 2, 0)"
| "fkey NegInf = (- 1, 0)"
| "fkey (Num a) = (0, a)"
| "fkey PosInf = (1, 0)"

definition fmax :: "f64 \<Rightarrow> f64 \<Rightarrow> f64" where
  "fmax x y = (if fkey x \<le> fkey y then y else x)"

definition fmin :: "f64 \<Rightarrow> f64 \<Rightarrow> f64" where
  "fmin x y = (if fkey x \<le> fkey y then x else y)"

subsection \<open>Rounding to two decimals\<close>

text \<open>
  \<^verbatim>\<open>.round(2)\<close> is numpy's rounding: the value times 100, rounded to the nearest integer
  with halves going to the even neighbour, divided by 100.
\<close>

definition rint :: "real \<Rightarrow> int" where
  "rint x = (let f = \<lfloor>x\<rfloor>; d = x - of_int f in
     if d < 1 / 2 then f else if 1 / 2 < d then f + 1 else if even f then f else f + 1)"

fun round2 :: "f64 \<Rightarrow> f64" where
  "round2 (Num a) = Num (of_int (rint (a * 100)) / 100)"
| "round2 x = x"

section \<open>Series and their reductions\<close>

type_synonym series = "f64 list"

definition dropna :: "series \<Rightarrow> series" where
  "dropna xs = filter (\<lambda>x. x \<noteq> NaN) xs"

definition fillna0 :: "series \<Rightarrow> series" where
  "fillna0 xs = map (\<lambda>x. if x = NaN then Num 0 else x) xs"

text \<open>The reductions skip NaN cells (\<^verbatim>\<open>skipna=True\<close> is the default of each).\<close>

definition sum_cells :: "series \<Rightarrow> f64" where
  "sum_cells xs = foldl fadd (Num 0) xs"

definition nansum :: "series \<Rightarrow> f64" where
  "nansum xs = sum_cells (dropna xs)"

definition prod_series :: "series \<Rightarrow> f64" where
  "prod_series xs = foldl fmul (Num 1) (dropna xs)"

definition mean_series :: "series \<Rightarrow> f64" where
  "mean_series xs = (let n = length (dropna xs) in
     if n = 0 then NaN else fdiv (nansum xs) (Num (real n)))"

text \<open>
  \<^verbatim>\<open>.std()\<close> has \<^verbatim>\<open>ddof=1\<close>: with at most one observation the result is NaN; otherwise
  the squared deviations from the mean are summed and divided by the count less one.
  Only the NaN cells of the input are left out: a squared deviation that is itself NaN
  (a deviation from an infinite mean) is summed like any other and makes the result NaN.
\<close>

definition var_series :: "series \<Rightarrow> f64" where
  "var_series xs = (let ys = dropna xs; n = length ys in
     if n \<le> 1 then NaN
     else let avg = fdiv (sum_cells ys) (Num (real n));
              sqr = map (\<lambda>y. fmul (fsub avg y) (fsub avg y)) ys
          in fdiv (sum_cells sqr) (Num (real (n - 1))))"

definition std_series :: "series \<Rightarrow> f64" where
  "std_series xs = fsqrt (var_series xs)"

definition max_series :: "series \<Rightarrow> f64" where
  "max_series xs = (case dropna xs of [] \<Rightarrow> NaN | y # ys \<Rightarrow> foldl fmax y ys)"

definition min_series :: "series \<Rightarrow> f64" where
  "min_series xs = (case dropna xs of [] \<Rightarrow> NaN | y # ys \<Rightarrow> foldl fmin y ys)"

definition median_series :: "series \<Rightarrow> f64" where
  "median_series xs = (let ys = sort_key fkey (dropna xs); n = length ys in
     if n = 0 then NaN
     else if odd n then ys ! (n div 2)
     else fdiv (fadd (ys ! (n div 2 - 1)) (ys ! (n div 2))) (Num 2))"

text \<open>
  \<^verbatim>\<open>.cumprod()\<close>: the running product; a NaN cell stays NaN and leaves the running
  product as it was.
\<close>

fun cumprod_from :: "f64 \<Rightarrow> series \<Rightarrow> series" where
  "cumprod_from acc [] = []"
| "cumprod_from acc (x # xs) =
     (if x = NaN then NaN # cumprod_from acc xs
      else fmul acc x # cumprod_from (fmul acc x) xs)"

definition cumprod :: "series \<Rightarrow> series" where
  "cumprod xs = cumprod_from (Num 1) xs"

subsection \<open>Percentage change\<close>

text \<open>
  \<^verbatim>\<open>pct_change()\<close> divides each cell by the cell before it and subtracts one; the first
  cell has no predecessor and is NaN.  Whether NaN cells of the input are first filled
  with the last valid value depends on the default \<^verbatim>\<open>fill_method\<close> of the installed
  pandas, which the repository does not fix: it is a parameter here.
\<close>

datatype fill_method = Pad | NoFill

fun ffill_from :: "f64 \<Rightarrow> series \<Rightarrow> series" where
  "ffill_from prev [] = []"
| "ffill_from prev (x # xs) =
     (if x = NaN then prev # ffill_from prev xs else x # ffill_from x xs)"

definition shift1 :: "series \<Rightarrow> series" where
  "shift1 xs = (case xs of [] \<Rightarrow> [] | _ # _ \<Rightarrow> NaN # butlast xs)"

definition pct_change :: "fill_method \<Rightarrow> series \<Rightarrow> series" where
  "pct_change fm xs = (let d = (case fm of Pad \<Rightarrow> ffill_from NaN xs | NoFill \<Rightarrow> xs)
     in map2 (\<lambda>x s. fsub (fdiv x s) (Num 1)) d (shift1 d))"

section \<open>Tables\<close>

text \<open>
  A DataFrame: the row index (dates, as day numbers) and the named columns in their
  order.  A Series indexed by ticker, and the two-column table \<^verbatim>\<open>reset_index()\<close> makes
  of it, are lists of (ticker, value) rows.
\<close>

record dataframe =
  idx :: "nat list"
  cols :: "(string \<times> series) list"

type_synonym ranking = "(string \<times> f64) list"

definition empty_frame :: dataframe where
  "empty_frame = \<lparr>idx = [], cols = []\<rparr>"

definition map_cols :: "(series \<Rightarrow> series) \<Rightarrow> dataframe \<Rightarrow> dataframe" where
  "map_cols f df = df\<lparr>cols := map (\<lambda>(t, c). (t, f c)) (cols df)\<rparr>"

definition reduce_cols :: "(series \<Rightarrow> f64) \<Rightarrow> dataframe \<Rightarrow> ranking" where
  "reduce_cols f df = map (\<lambda>(t, c). (t, f c)) (cols df)"

datatype py_error = KeyError string | FetchError string

definition getitem :: "dataframe \<Rightarrow> string \<Rightarrow> py_error + series" where
  "getitem df name = (case map_of (cols df) name of
     None \<Rightarrow> Inl (KeyError name) | Some c \<Rightarrow> Inr c)"

subsection \<open>Sorting a table by its value column, descending\<close>

text \<open>
  \<^verbatim>\<open>sort_values(ascending=False)\<close> sets the NaN rows aside, reverses the others, sorts
  them ascending with numpy's argsort, reverses the result and appends the NaN rows.
  The code passes no \<^verbatim>\<open>kind\<close>, so the argsort is numpy's default quicksort, which is
  outside the repository and not a stable sort: it is the parameter \<open>srt\<close>, of which
  only \<open>sorts\<close> is assumed, that it returns its argument's rows in ascending order.
\<close>

type_synonym sorter = "ranking \<Rightarrow> ranking"

definition row_key :: "string \<times> f64 \<Rightarrow> int \<times> real" where
  "row_key r = fkey (snd r)"

definition sort_values_desc :: "sorter \<Rightarrow> ranking \<Rightarrow> ranking" where
  "sort_values_desc srt rows =
     rev (srt (rev (filter (\<lambda>r. snd r \<noteq> NaN) rows))) @ filter (\<lambda>r. snd r = NaN) rows"

definition sorts :: "sorter \<Rightarrow> bool" where
  "sorts srt \<longleftrightarrow> (\<forall>rows. mset (srt rows) = mset rows \<and> sorted (map row_key (srt rows)))"

section \<open>The functions of \<^verbatim>\<open>services.py\<close>\<close>

subsection \<open>\<^verbatim>\<open>df_stocks_close\<close>\<close>

text \<open>
  The market-data source is outside the repository: \<open>hist ticker period\<close> is the dated
  Close series that \<^verbatim>\<open>yf.Ticker(ticker).history(period=period)['Close']\<close> returns (dates
  distinct), or the exception it raises.  Assigning a series to a column of a table
  whose index is empty, when the series is not, makes the series' index the table's
  index (columns already there become NaN); otherwise the series is aligned to the
  table's index, NaN where it has no such date.  An existing column of that name is
  replaced in place.  The \<^verbatim>\<open>st.cache_data\<close> decorator, which returns the stored result of
  an earlier call with the same arguments, is not modelled.
\<close>

type_synonym fetch = "string \<Rightarrow> string \<Rightarrow> py_error + (nat \<times> f64) list"

fun set_col :: "string \<Rightarrow> series \<Rightarrow> (string \<times> series) list \<Rightarrow> (string \<times> series) list" where
  "set_col t c [] = [(t, c)]"
| "set_col t c ((u, d) # rest) = (if u = t then (t, c) # rest else (u, d) # set_col t c rest)"

definition setitem :: "dataframe \<Rightarrow> string \<Rightarrow> (nat \<times> f64) list \<Rightarrow> dataframe" where
  "setitem df ticker s =
     (if idx df = [] \<and> s \<noteq> []
      then \<lparr>idx = map fst s,
            cols = set_col ticker (map snd s)
                     (map (\<lambda>(t, c). (t, replicate (length s) NaN)) (cols df))\<rparr>
      else \<lparr>idx = idx df,
            cols = set_col ticker
                     (map (\<lambda>d. case map_of s d of None \<Rightarrow> NaN | Some v \<Rightarrow> v) (idx df))
                     (cols df)\<rparr>)"

fun close_loop :: "fetch \<Rightarrow> string \<Rightarrow> dataframe \<Rightarrow> string list \<Rightarrow> py_error + dataframe" where
  "close_loop hist period df [] = Inr df"
| "close_loop hist period df (ticker # rest) =
     (case hist ticker period of
        Inl e \<Rightarrow> Inl e
      | Inr s \<Rightarrow> close_loop hist period (setitem df ticker s) rest)"

definition df_stocks_close :: "fetch \<Rightarrow> string \<Rightarrow> string list \<Rightarrow> py_error + dataframe" where
  "df_stocks_close hist period stocks_list = close_loop hist period empty_frame stocks_list"

subsection \<open>\<^verbatim>\<open>statistics_historical_data\<close>\<close>

record stats =
  volatility :: f64
  cumulative_return :: f64
  high_price :: f64
  low_price :: f64
  median_price :: f64
  mean_price :: f64
  standard_deviation :: f64
  coefficient_variation :: f64

text \<open>
  Two expressions occur both here and in the table functions: \<^verbatim>\<open>(s * 252 ** 0.5) * 100\<close>,
  which annualizes a standard deviation of daily returns, and
  \<^verbatim>\<open>((1 + returns).prod() - 1) * 100\<close>, the cumulative return in percent.  A missing
  column is a \<^verbatim>\<open>KeyError\<close>.
\<close>

definition annualize :: "f64 \<Rightarrow> f64" where
  "annualize s = fmul (fmul s (Num (sqrt 252))) (Num 100)"

definition total_return :: "series \<Rightarrow> f64" where
  "total_return returns = fmul (fsub (prod_series (map (fadd (Num 1)) returns)) (Num 1)) (Num 100)"

definition statistics_historical_data :: "fill_method \<Rightarrow> dataframe \<Rightarrow> py_error + stats" where
  "statistics_historical_data fm df_stock =
     (case getitem df_stock ''Close'' of
        Inl e \<Rightarrow> Inl e
      | Inr close \<Rightarrow>
          let returns = fillna0 (pct_change fm close);
              vol = annualize (std_series returns);
              cum = total_return returns;
              med = median_series close;
              mean = mean_series close;
              sd = std_series close;
              cv = fmul (fdiv sd mean) (Num 100)
          in (case getitem df_stock ''High'' of
                Inl e \<Rightarrow> Inl e
              | Inr high \<Rightarrow>
                  (case getitem df_stock ''Low'' of
                     Inl e \<Rightarrow> Inl e
                   | Inr low \<Rightarrow>
                       Inr \<lparr>volatility = vol, cumulative_return = cum,
                            high_price = max_series high, low_price = min_series low,
                            median_price = med, mean_price = mean,
                            standard_deviation = sd, coefficient_variation = cv\<rparr>)))"

subsection \<open>The functions over the table of all tickers\<close>

definition df_returns :: "fill_method \<Rightarrow> dataframe \<Rightarrow> dataframe" where
  "df_returns fm df_close_prices = map_cols (\<lambda>c. fillna0 (pct_change fm c)) df_close_prices"

definition df_stocks_returns_ranking :: "sorter \<Rightarrow> dataframe \<Rightarrow> ranking" where
  "df_stocks_returns_ranking srt df_close_returns =
     map (\<lambda>(t, v). (t, round2 v)) (sort_values_desc srt (reduce_cols total_return df_close_returns))"

definition df_stocks_returns_period :: "dataframe \<Rightarrow> dataframe" where
  "df_stocks_returns_period df_close_returns =
     map_cols (\<lambda>c. map (\<lambda>x. round2 (fmul (fsub x (Num 1)) (Num 100)))
                       (cumprod (map (fadd (Num 1)) c)))
       df_close_returns"

definition df_annualized_volatility :: "sorter \<Rightarrow> dataframe \<Rightarrow> ranking" where
  "df_annualized_volatility srt df_close_returns =
     sort_values_desc srt (reduce_cols (\<lambda>c. round2 (annualize (std_series c))) df_close_returns)"

definition df_coefficient_variation :: "sorter \<Rightarrow> dataframe \<Rightarrow> ranking" where
  "df_coefficient_variation srt df_close_prices =
     sort_values_desc srt
       (reduce_cols (\<lambda>c. round2 (fmul (fdiv (std_series c) (mean_series c)) (Num 100)))
          df_close_prices)"

section \<open>The correlation matrix\<close>

text \<open>
  \<^verbatim>\<open>df_close_returns.corr()\<close> is pandas' Pearson correlation: for each pair of columns,
  over the rows where both cells are finite, the sum of the products of the deviations
  from the means divided by the root of the product of the two sums of squared
  deviations, clipped to the interval from -1 to 1; NaN when there is no such row or
  the divisor is zero.
\<close>

fun finite_pairs :: "series \<Rightarrow> series \<Rightarrow> (real \<times> real) list" where
  "finite_pairs (Num a # xs) (Num b # ys) = (a, b) # finite_pairs xs ys"
| "finite_pairs (x # xs) (y # ys) = finite_pairs xs ys"
| "finite_pairs xs ys = []"

definition corr_pair :: "series \<Rightarrow> series \<Rightarrow> f64" where
  "corr_pair xs ys = (let ps = finite_pairs xs ys; n = real (length ps) in
     if length ps < 1 then NaN
     else let mx = sum_list (map fst ps) / n;
              my = sum_list (map snd ps) / n;
              ssx = sum_list (map (\<lambda>(a, b). (a - mx) * (a - mx)) ps);
              ssy = sum_list (map (\<lambda>(a, b). (b - my) * (b - my)) ps);
              cxy = sum_list (map (\<lambda>(a, b). (a - mx) * (b - my)) ps);
              divisor = sqrt (ssx * ssy)
          in if divisor \<noteq> 0 then Num (max (- 1) (min 1 (cxy / divisor))) else NaN)"

definition corr :: "dataframe \<Rightarrow> (string \<times> series) list" where
  "corr df = map (\<lambda>(t, c). (t, map (\<lambda>(u, d). corr_pair c d) (cols df))) (cols df)"

definition corr_at :: "dataframe \<Rightarrow> nat \<Rightarrow> nat \<Rightarrow> f64" where
  "corr_at df i j = snd (corr df ! i) ! j"

section \<open>The comparison section of \<^verbatim>\<open>main\<close>\<close>

text \<open>
  The part of \<^verbatim>\<open>main\<close> under the heading "Statistical Analyses" (lines 113 to 186 of
  \<^verbatim>\<open>streamlit_app.py\<close>), as the sequence of what it invokes and shows.  \<^verbatim>\<open>st.stop()\<close>
  ends the run.
\<close>

datatype call =
    Call_df_stocks_close | Call_df_returns | Call_df_stocks_returns_period
  | Call_df_stocks_returns_ranking | Call_corr | Call_df_annualized_volatility
  | Call_df_coefficient_variation

datatype event =
    Invoked call
  | Warned
  | Line_chart dataframe
  | Heatmap "(string \<times> series) list"
  | Bar_chart ranking

datatype outcome = Raised py_error | Stopped | Completed

definition main_analyses ::
  "fill_method \<Rightarrow> sorter \<Rightarrow> fetch \<Rightarrow> string \<Rightarrow> string list \<Rightarrow> event list \<times> outcome" where
  "main_analyses fm srt hist stocks_period stocks_list =
     (case df_stocks_close hist stocks_period stocks_list of
        Inl e \<Rightarrow> ([Invoked Call_df_stocks_close], Raised e)
      | Inr df_close_prices \<Rightarrow>
          let df_close_returns = df_returns fm df_close_prices;
              df_returns_period = df_stocks_returns_period df_close_returns;
              df_cumulative_returns = df_stocks_returns_ranking srt df_close_returns;
              corr_matrix = corr df_close_returns;
              annualized_volatility = df_annualized_volatility srt df_close_returns;
              coefficient_variation = df_coefficient_variation srt df_close_prices;
              calls = map Invoked
                [Call_df_stocks_close, Call_df_returns, Call_df_stocks_returns_period,
                 Call_df_stocks_returns_ranking, Call_corr, Call_df_annualized_volatility,
                 Call_df_coefficient_variation]
          in if stocks_list = [] \<or> length stocks_list = 1
             then (calls @ [Warned], Stopped)
             else (calls @ [Line_chart df_returns_period, Heatmap corr_matrix,
                            Bar_chart df_cumulative_returns, Bar_chart annualized_volatility,
                            Bar_chart coefficient_variation], Completed))"

definition is_chart :: "event \<Rightarrow> bool" where
  "is_chart e = (case e of Line_chart _ \<Rightarrow> True | Heatmap _ \<Rightarrow> True | Bar_chart _ \<Rightarrow> True | _ \<Rightarrow> False)"

section \<open>The formulas of the specification\<close>

text \<open>
  The return series and the sample standard deviation as the specification words them,
  over real numbers: \<open>r[0] = 0\<close> and \<open>r[i] = price[i] / price[i-1] - 1\<close>; the root of the
  sum of squared deviations from the mean divided by \<open>n - 1\<close>.
\<close>

definition spec_returns :: "real list \<Rightarrow> real list" where
  "spec_returns ps = map (\<lambda>i. if i = 0 then 0 else ps ! i / ps ! (i - 1) - 1) [0..<length ps]"

definition sample_std :: "real list \<Rightarrow> real" where
  "sample_std xs = (let n = real (length xs); m = sum_list xs / n in
     sqrt (sum_list (map (\<lambda>x. (x - m)\<^sup>2) xs) / (n - 1)))"

section \<open>Notions used in the statements\<close>

text \<open>The seven invocations of lines 127 to 133 of \<^verbatim>\<open>streamlit_app.py\<close>, in their order.\<close>

definition all_calls :: "event list" where
  "all_calls = map Invoked
     [Call_df_stocks_close, Call_df_returns, Call_df_stocks_returns_period,
      Call_df_stocks_returns_ranking, Call_corr, Call_df_annualized_volatility,
      Call_df_coefficient_variation]"


text \<open>
  The sum of the squared deviations from the mean: the variance but for the divisor, so
  zero exactly when the variance of a series of two or more values is.
\<close>

definition sum_sq_dev :: "real list \<Rightarrow> real" where
  "sum_sq_dev xs = (let m = sum_list xs / real (length xs) in
     sum_list (map (\<lambda>x. (x - m) * (x - m)) xs))"

text \<open>The column \<^verbatim>\<open>pct_change\<close> divides: the input, forward-filled or not.\<close>

definition filled :: "fill_method \<Rightarrow> series \<Rightarrow> series" where
  "filled fm xs = (case fm of Pad \<Rightarrow> ffill_from NaN xs | NoFill \<Rightarrow> xs)"



section \<open>Example inputs\<close>

text \<open>A market-data source that answers every request with the same two closing prices.\<close>

definition two_day_fetch :: fetch where
  "two_day_fetch ticker period = Inr [(0, Num 10), (1, Num 11)]"

text \<open>A price table of one bar whose High, Low and Close are all 10.\<close>

definition one_bar :: dataframe where
  "one_bar = \<lparr>idx = [0],
     cols = [(''Open'', [Num 10]), (''High'', [Num 10]), (''Low'', [Num 10]),
             (''Close'', [Num 10]), (''Volume'', [Num 5000])]\<rparr>"

text \<open>Example tables: a price table of three bars, a close-price table and return tables of two tickers.\<close>

definition three_bars :: dataframe where
  "three_bars = \<lparr>idx = [0, 1, 2],
     cols = [(''Open'', [Num 100, Num 100, Num 110]), (''High'', [Num 101, Num 112, Num 110]),
             (''Low'', [Num 99, Num 100, Num 98]), (''Close'', [Num 100, Num 110, Num 99]),
             (''Volume'', [Num 5000, Num 7000, Num 6000])]\<rparr>"

definition two_closes :: dataframe where
  "two_closes = \<lparr>idx = [0, 1, 2],
     cols = [(''PETR4.SA'', [Num 100, Num 110, Num 99]),
             (''VALE3.SA'', [Num 50, Num 50, Num 55])]\<rparr>"

definition two_returns :: dataframe where
  "two_returns = \<lparr>idx = [0, 1, 2],
     cols = [(''PETR4.SA'', [Num 0, Num (1 / 10), Num (- (1 / 10))]),
             (''VALE3.SA'', [Num 0, Num 0, Num (1 / 10)])]\<rparr>"

definition small_gain :: dataframe where
  "small_gain = \<lparr>idx = [0, 1],
     cols = [(''PETR4.SA'', [Num 0, Num (1 / 300)]), (''VALE3.SA'', [Num 0, Num (1 / 100)])]\<rparr>"

text \<open>A return table whose first column has an annualized volatility of 14/3 percent.\<close>

definition calm_returns :: dataframe where
  "calm_returns = \<lparr>idx = [0, 1, 2],
     cols = [(''PETR4.SA'', [Num 0, Num (1 / 900), Num (- (1 / 225))]),
             (''VALE3.SA'', [Num 0, Num 0, Num 0])]\<rparr>"

text \<open>Return tables: two tickers whose prices never moved; two tickers with the same returns and a third with their negatives.\<close>

definition flat_returns :: dataframe where
  "flat_returns = \<lparr>idx = [0, 1, 2],
     cols = [(''PETR4.SA'', [Num 0, Num 0, Num 0]), (''VALE3.SA'', [Num 0, Num 0, Num 0])]\<rparr>"

definition mirrored_returns :: dataframe where
  "mirrored_returns = \<lparr>idx = [0, 1, 2],
     cols = [(''PETR4.SA'', [Num 0, Num (1 / 10), Num (- (1 / 10))]),
             (''VALE3.SA'', [Num 0, Num (1 / 10), Num (- (1 / 10))]),
             (''ITUB4.SA'', [Num 0, Num (- (1 / 10)), Num (1 / 10)])]\<rparr>"

text \<open>
  A market-data source whose second ticker has no bar on the first day, and the
  close-price table \<^verbatim>\<open>df_stocks_close\<close> builds from it.
\<close>

definition staggered_fetch :: fetch where
  "staggered_fetch ticker period =
     (if ticker = ''PETR4.SA'' then Inr [(0, Num 10), (1, Num 11), (2, Num 12)]
      else Inr [(1, Num 5), (2, Num 6)])"

definition staggered_closes :: dataframe where
  "staggered_closes = \<lparr>idx = [0, 1, 2],
     cols = [(''PETR4.SA'', [Num 10, Num 11, Num 12]),
             (''VALE3.SA'', [NaN, Num 5, Num 6])]\<rparr>"



section \<open>Finite cells behave as real numbers\<close>

lemma dropna_Num [simp]: "dropna (map Num xs) = map Num xs"
  by (induction xs) (simp_all add: dropna_def)

lemma foldl_fadd_Num: "foldl fadd (Num a) (map Num xs) = Num (a + sum_list xs)"
  by (induction xs arbitrary: a) (simp_all add: add.assoc)

lemma foldl_fmul_Num: "foldl fmul (Num a) (map Num xs) = Num (a * prod_list xs)"
  by (induction xs arbitrary: a) (simp_all add: mult.assoc)

lemma sum_cells_Num [simp]: "sum_cells (map Num xs) = Num (sum_list xs)"
  by (simp add: sum_cells_def foldl_fadd_Num)

lemma nansum_Num [simp]: "nansum (map Num xs) = Num (sum_list xs)"
  by (simp add: nansum_def)

lemma prod_series_Num [simp]: "prod_series (map Num xs) = Num (prod_list xs)"
  by (simp add: prod_series_def foldl_fmul_Num)

lemma mean_series_Num:
  "xs \<noteq> [] \<Longrightarrow> mean_series (map Num xs) = Num (sum_list xs / real (length xs))"
  by (simp add: mean_series_def)

lemma var_series_Num:
  assumes "2 \<le> length xs"
  shows "var_series (map Num xs) =
    Num (sum_list (map (\<lambda>x. (x - sum_list xs / real (length xs))\<^sup>2) xs) / (real (length xs) - 1))"
proof -
  let ?m = "sum_list xs / real (length xs)"
  have sq: "map (\<lambda>y. fmul (fsub (Num ?m) y) (fsub (Num ?m) y)) (map Num xs)
      = map Num (map (\<lambda>x. (x - ?m)\<^sup>2) xs)"
    by (simp add: fsub_def power2_eq_square algebra_simps)
  have n0: "real (length xs) \<noteq> 0" "real (length xs - 1) \<noteq> 0" using assms by auto
  have n1: "real (length xs - 1) = real (length xs) - 1" using assms by (simp add: of_nat_diff)
  have "\<not> length xs \<le> 1" using assms by simp
  then show ?thesis
    unfolding var_series_def Let_def dropna_Num length_map
    using n0 by (simp add: sq n1 del: map_map)
qed

lemma std_series_Num:
  assumes "2 \<le> length xs"
  shows "std_series (map Num xs) = Num (sample_std xs)"
proof -
  have "0 \<le> sum_list (map (\<lambda>x. (x - sum_list xs / real (length xs))\<^sup>2) xs)"
    by (rule sum_list_nonneg) auto
  moreover have "0 < real (length xs) - 1" using assms by simp
  ultimately have "0 \<le> sum_list (map (\<lambda>x. (x - sum_list xs / real (length xs))\<^sup>2) xs) / (real (length xs) - 1)"
    by simp
  then show ?thesis
    by (simp add: std_series_def var_series_Num [OF assms] sample_std_def Let_def)
qed

lemma std_series_short: "length xs < 2 \<Longrightarrow> std_series xs = NaN"
proof -
  assume "length xs < 2"
  moreover have "length (dropna xs) \<le> length xs" by (simp add: dropna_def)
  ultimately have "length (dropna xs) \<le> 1" by simp
  then show ?thesis by (simp add: std_series_def var_series_def Let_def)
qed

lemma ffill_from_Num [simp]: "ffill_from p (map Num xs) = map Num xs"
  by (induction xs arbitrary: p) simp_all

lemma pct_change_length [simp]: "length (pct_change fm xs) = length xs"
proof -
  have "length (ffill_from p xs) = length xs" for p
    by (induction xs arbitrary: p) simp_all
  moreover have "length (shift1 ys) = length ys" for ys
    by (cases ys) (simp_all add: shift1_def)
  ultimately show ?thesis
    by (cases fm) (simp_all add: pct_change_def Let_def)
qed

lemma shift1_nth: "1 \<le> i \<Longrightarrow> i < length xs \<Longrightarrow> shift1 xs ! i = xs ! (i - 1)"
proof -
  assume i: "1 \<le> i" "i < length xs"
  then obtain y ys where xs: "xs = y # ys" by (cases xs) auto
  from i obtain k where k: "i = Suc k" by (cases i) auto
  have "k < length (butlast xs)" using i k by simp
  then have "butlast xs ! k = xs ! k" by (rule nth_butlast)
  then show ?thesis using xs k by (simp add: shift1_def)
qed

lemma shift1_0: "xs \<noteq> [] \<Longrightarrow> shift1 xs ! 0 = NaN"
  by (cases xs) (simp_all add: shift1_def)

lemma length_shift1 [simp]: "length (shift1 xs) = length xs"
  by (cases xs) (simp_all add: shift1_def)

lemma fdiv_NaN_right [simp]: "fdiv x NaN = NaN"
  by (cases x) simp_all

lemma fsub_NaN_left [simp]: "fsub NaN y = NaN"
  by (simp add: fsub_def)

lemma pct_change_nth:
  assumes "1 \<le> i" "i < length ps"
  shows "pct_change fm (map Num ps) ! i = fsub (fdiv (Num (ps ! i)) (Num (ps ! (i - 1)))) (Num 1)"
proof -
  have "pct_change fm (map Num ps) = map2 (\<lambda>x s. fsub (fdiv x s) (Num 1)) (map Num ps) (shift1 (map Num ps))"
    by (cases fm) (simp_all add: pct_change_def Let_def)
  moreover have "shift1 (map Num ps) ! i = Num (ps ! (i - 1))"
    using assms by (simp add: shift1_nth)
  ultimately show ?thesis using assms by simp
qed

lemma pct_change_Num_nth:
  assumes "1 \<le> i" "i < length ps" "ps ! (i - 1) \<noteq> 0"
  shows "pct_change fm (map Num ps) ! i = Num (ps ! i / ps ! (i - 1) - 1)"
  using assms by (simp add: pct_change_nth fsub_def)

lemma pct_change_Num_0:
  assumes "ps \<noteq> []"
  shows "pct_change fm (map Num ps) ! 0 = NaN"
proof -
  have "pct_change fm (map Num ps) = map2 (\<lambda>x s. fsub (fdiv x s) (Num 1)) (map Num ps) (shift1 (map Num ps))"
    by (cases fm) (simp_all add: pct_change_def Let_def)
  moreover have "shift1 (map Num ps) ! 0 = NaN"
    using assms by (simp add: shift1_0)
  ultimately show ?thesis using assms by simp
qed

lemma returns_Num:
  assumes "\<forall>i. Suc i < length ps \<longrightarrow> ps ! i \<noteq> 0"
  shows "fillna0 (pct_change fm (map Num ps)) = map Num (spec_returns ps)"
proof (rule nth_equalityI)
  show "length (fillna0 (pct_change fm (map Num ps))) = length (map Num (spec_returns ps))"
    by (simp add: fillna0_def spec_returns_def)
next
  fix i assume "i < length (fillna0 (pct_change fm (map Num ps)))"
  then have i: "i < length ps" by (simp add: fillna0_def)
  show "fillna0 (pct_change fm (map Num ps)) ! i = map Num (spec_returns ps) ! i"
  proof (cases "i = 0")
    case True
    with i have "ps \<noteq> []" by auto
    then show ?thesis using True i
      by (simp add: fillna0_def spec_returns_def pct_change_Num_0)
  next
    case False
    then have "ps ! (i - 1) \<noteq> 0" using assms i by (cases i) auto
    then show ?thesis using False i
      by (simp add: fillna0_def spec_returns_def pct_change_Num_nth)
  qed
qed

section \<open>Sorting\<close>

text \<open>Insertion sort by the value key is a sorting function.\<close>

lemma sorts_sort_key: "sorts (sort_key row_key)"
  by (simp add: sorts_def)

lemma sorts_Nil: "sorts srt \<Longrightarrow> srt [] = []"
proof -
  assume "sorts srt"
  then have "mset (srt []) = mset []" unfolding sorts_def by blast
  then show ?thesis by simp
qed

lemma sort_values_desc_Nil: "sorts srt \<Longrightarrow> sort_values_desc srt [] = []"
  by (simp add: sort_values_desc_def sorts_Nil)

section \<open>The table with no tickers\<close>

text \<open>
  C10: for the empty close-price table, which is what \<^verbatim>\<open>df_stocks_close\<close> returns for an
  empty ticker list whatever the market-data source does, each of \<^verbatim>\<open>df_returns\<close>,
  \<^verbatim>\<open>df_stocks_returns_ranking\<close>, \<^verbatim>\<open>df_stocks_returns_period\<close>,
  \<^verbatim>\<open>df_annualized_volatility\<close>, \<^verbatim>\<open>df_coefficient_variation\<close> and the correlation
  returns an empty table; the dashboard invokes all of them and only then stops with
  its warning, so the run ends by \<^verbatim>\<open>st.stop()\<close> and not by an exception.
\<close>

theorem empty_matrix_gives_empty_tables:
  assumes "sorts srt"
  shows "df_stocks_close hist period [] = Inr empty_frame
       \<and> df_returns fm empty_frame = empty_frame
       \<and> df_stocks_returns_ranking srt empty_frame = []
       \<and> df_stocks_returns_period empty_frame = empty_frame
       \<and> df_annualized_volatility srt empty_frame = []
       \<and> df_coefficient_variation srt empty_frame = []
       \<and> corr empty_frame = []
       \<and> main_analyses fm srt hist period [] = (all_calls @ [Warned], Stopped)"
proof -
  have a: "df_stocks_close hist period [] = Inr empty_frame"
    by (simp add: df_stocks_close_def)
  have b: "df_returns fm empty_frame = empty_frame"
    by (simp add: df_returns_def map_cols_def empty_frame_def)
  have c: "df_stocks_returns_ranking srt empty_frame = []"
    by (simp add: df_stocks_returns_ranking_def reduce_cols_def empty_frame_def
        sort_values_desc_Nil [OF assms])
  have d: "df_stocks_returns_period empty_frame = empty_frame"
    by (simp add: df_stocks_returns_period_def map_cols_def empty_frame_def)
  have e: "df_annualized_volatility srt empty_frame = []"
    by (simp add: df_annualized_volatility_def reduce_cols_def empty_frame_def
        sort_values_desc_Nil [OF assms])
  have f: "df_coefficient_variation srt empty_frame = []"
    by (simp add: df_coefficient_variation_def reduce_cols_def empty_frame_def
        sort_values_desc_Nil [OF assms])
  have g: "corr empty_frame = []"
    by (simp add: corr_def empty_frame_def)
  have h: "main_analyses fm srt hist period [] = (all_calls @ [Warned], Stopped)"
    by (simp add: main_analyses_def a all_calls_def)
  from a b c d e f g h show ?thesis by blast
qed

text \<open>C10, at insertion sort and the two-day source.\<close>

theorem empty_matrix_gives_empty_tables_witness:
  "sorts (sort_key row_key)
   \<and> df_stocks_close two_day_fetch ''1y'' [] = Inr empty_frame
   \<and> df_returns Pad empty_frame = empty_frame
   \<and> df_stocks_returns_ranking (sort_key row_key) empty_frame = []
   \<and> df_stocks_returns_period empty_frame = empty_frame
   \<and> df_annualized_volatility (sort_key row_key) empty_frame = []
   \<and> df_coefficient_variation (sort_key row_key) empty_frame = []
   \<and> corr empty_frame = []
   \<and> main_analyses Pad (sort_key row_key) two_day_fetch ''1y'' []
       = (all_calls @ [Warned], Stopped)"
  using empty_matrix_gives_empty_tables [OF sorts_sort_key, of two_day_fetch "''1y''" Pad]
    sorts_sort_key by simp

section \<open>Fewer than two tickers selected\<close>

text \<open>
  C1, as stated, fails: with one selected ticker, and with none, the run invokes
  \<^verbatim>\<open>df_returns\<close> and the correlation (lines 128 and 131 come before the test of
  line 137).
\<close>

theorem engine_invoked_below_two_tickers:
  "Invoked Call_df_returns
     \<in> set (fst (main_analyses Pad (sort_key row_key) two_day_fetch ''1y'' [''PETR4.SA'']))
   \<and> Invoked Call_corr
     \<in> set (fst (main_analyses Pad (sort_key row_key) two_day_fetch ''1y'' []))"
  by (simp add: main_analyses_def df_stocks_close_def two_day_fetch_def)

text \<open>
  C1, amended: with fewer than two selected tickers the run shows no chart; when the
  closing prices are fetched without an exception it invokes all seven computations,
  then warns and stops.
\<close>

theorem below_two_tickers_computes_then_stops:
  assumes "length stocks_list < 2"
  shows "filter is_chart (fst (main_analyses fm srt hist period stocks_list)) = []
       \<and> (\<forall>df. df_stocks_close hist period stocks_list = Inr df \<longrightarrow>
            main_analyses fm srt hist period stocks_list = (all_calls @ [Warned], Stopped))"
proof -
  have short: "stocks_list = [] \<or> length stocks_list = 1"
    using assms by (cases stocks_list) auto
  show ?thesis
  proof (cases "df_stocks_close hist period stocks_list")
    case (Inl e)
    then show ?thesis by (simp add: main_analyses_def is_chart_def)
  next
    case (Inr df)
    then show ?thesis using short
      by (auto simp add: main_analyses_def all_calls_def is_chart_def Let_def)
  qed
qed

text \<open>C1, amended, at one selected ticker.\<close>

theorem below_two_tickers_computes_then_stops_witness:
  "length [''PETR4.SA''] < 2
   \<and> filter is_chart (fst (main_analyses Pad (sort_key row_key)
        two_day_fetch ''1y'' [''PETR4.SA''])) = []
   \<and> main_analyses Pad (sort_key row_key) two_day_fetch ''1y'' [''PETR4.SA'']
       = (all_calls @ [Warned], Stopped)"
  using below_two_tickers_computes_then_stops
    [of "[''PETR4.SA'']" Pad "sort_key row_key" two_day_fetch "''1y''"]
  by (simp add: df_stocks_close_def is_chart_def all_calls_def two_day_fetch_def)

section \<open>Price tables of fewer than two bars\<close>

lemma returns_short:
  assumes "length close < 2"
  shows "fillna0 (pct_change fm close) = replicate (length close) (Num 0)"
proof (cases close)
  case Nil
  then show ?thesis by (cases fm) (simp_all add: pct_change_def fillna0_def shift1_def)
next
  case (Cons x xs)
  with assms have xs: "xs = []" by simp
  have "ffill_from NaN [x] = [x]" by simp
  then show ?thesis using Cons xs
    by (cases fm) (simp_all add: pct_change_def fillna0_def shift1_def Let_def)
qed

lemma total_return_zeros: "total_return (replicate n (Num 0)) = Num 0"
proof -
  have "foldl fmul (Num 1) (replicate n (Num 1)) = Num 1"
    by (induction n) simp_all
  moreover have "dropna (replicate n (Num 1)) = replicate n (Num 1)"
    by (induction n) (simp_all add: dropna_def)
  ultimately show ?thesis
    by (simp add: total_return_def prod_series_def fsub_def)
qed

lemma annualize_NaN [simp]: "annualize NaN = NaN"
  by (simp add: annualize_def)

text \<open>
  C3, as stated, fails: for a table of one bar the volatility and the standard deviation
  are NaN, not 0 (the sample standard deviation of one observation is undefined, and the
  code does nothing about it).
\<close>

theorem single_bar_volatility_is_nan:
  "statistics_historical_data Pad one_bar =
     Inr \<lparr>volatility = NaN, cumulative_return = Num 0, high_price = Num 10,
          low_price = Num 10, median_price = Num 10, mean_price = Num 10,
          standard_deviation = NaN, coefficient_variation = NaN\<rparr>"
proof -
  have "fillna0 (pct_change Pad [Num 10]) = [Num 0]"
    by (simp add: pct_change_def fillna0_def shift1_def)
  moreover have "total_return [Num 0] = Num 0"
    by (simp add: total_return_def prod_series_def dropna_def fsub_def)
  ultimately show ?thesis
    by (simp add: statistics_historical_data_def one_bar_def getitem_def
        std_series_short max_series_def min_series_def median_series_def
        mean_series_def dropna_def nansum_def sum_cells_def)
qed

text \<open>
  C3, amended: for every price table with fewer than two bars
  \<^verbatim>\<open>statistics_historical_data\<close> returns Cumulative Return 0 and NaN for Volatility,
  Standard Deviation and Coefficient Variation; with exactly one bar, High Price and
  Low Price are that bar's High and Low, and Mean Price and Median Price its Close.
\<close>

theorem fewer_than_two_bars:
  assumes "getitem df_stock ''Close'' = Inr close"
      and "getitem df_stock ''High'' = Inr high"
      and "getitem df_stock ''Low'' = Inr low"
      and "length close < 2"
  shows "\<exists>s. statistics_historical_data fm df_stock = Inr s
           \<and> volatility s = NaN \<and> standard_deviation s = NaN
           \<and> coefficient_variation s = NaN \<and> cumulative_return s = Num 0
           \<and> (\<forall>c h l. close = [Num c] \<and> high = [Num h] \<and> low = [Num l] \<longrightarrow>
                 high_price s = Num h \<and> low_price s = Num l
                 \<and> mean_price s = Num c \<and> median_price s = Num c)"
proof -
  have "length (replicate (length close) (Num 0 :: f64)) < 2"
    using assms(4) by simp
  then have r: "std_series (replicate (length close) (Num 0)) = NaN"
    by (rule std_series_short)
  have one: "max_series [Num h] = Num h" "min_series [Num l] = Num l"
    "mean_series [Num c] = Num c" "median_series [Num c] = Num c" for h l c
    by (simp_all add: max_series_def min_series_def mean_series_def median_series_def
        dropna_def nansum_def sum_cells_def)
  show ?thesis
    using assms(1-3) one
    by (auto simp add: statistics_historical_data_def Let_def r
        std_series_short [OF assms(4)] returns_short [OF assms(4)] total_return_zeros)
qed

text \<open>C3, amended, at the table of one bar.\<close>

theorem fewer_than_two_bars_witness:
  "getitem one_bar ''Close'' = Inr [Num 10] \<and> getitem one_bar ''High'' = Inr [Num 10]
   \<and> getitem one_bar ''Low'' = Inr [Num 10] \<and> length [Num 10 :: f64] < 2
   \<and> (\<exists>s. statistics_historical_data NoFill one_bar = Inr s
           \<and> volatility s = NaN \<and> standard_deviation s = NaN
           \<and> coefficient_variation s = NaN \<and> cumulative_return s = Num 0
           \<and> high_price s = Num 10 \<and> low_price s = Num 10
           \<and> mean_price s = Num 10 \<and> median_price s = Num 10)"
proof -
  have g: "getitem one_bar ''Close'' = Inr [Num 10]" "getitem one_bar ''High'' = Inr [Num 10]"
    "getitem one_bar ''Low'' = Inr [Num 10]"
    by (simp_all add: getitem_def one_bar_def)
  have l: "length [Num 10 :: f64] < 2" by simp
  from fewer_than_two_bars [OF g l, of NoFill] g l show ?thesis by auto
qed

section \<open>The return series\<close>

lemma fillna0_length [simp]: "length (fillna0 xs) = length xs"
  by (simp add: fillna0_def)

lemma returns_first:
  assumes "xs \<noteq> []"
  shows "fillna0 (pct_change fm xs) ! 0 = Num 0"
proof -
  obtain d where d: "pct_change fm xs = map2 (\<lambda>x s. fsub (fdiv x s) (Num 1)) d (shift1 d)"
    and l: "length d = length xs"
  proof (cases fm)
    case Pad
    have "length (ffill_from p xs) = length xs" for p
      by (induction xs arbitrary: p) simp_all
    then show ?thesis using that [of "ffill_from NaN xs"] Pad
      by (simp add: pct_change_def Let_def)
  next
    case NoFill
    then show ?thesis using that [of xs] by (simp add: pct_change_def)
  qed
  from l assms have "d \<noteq> []" by auto
  then have "shift1 d ! 0 = NaN" by (rule shift1_0)
  then have "pct_change fm xs ! 0 = NaN" using d l assms by simp
  then show ?thesis using assms by (simp add: fillna0_def)
qed

lemma map_cols_nth:
  "k < length (cols df) \<Longrightarrow> cols df ! k = (t, c) \<Longrightarrow> cols (map_cols f df) ! k = (t, f c)"
  by (simp add: map_cols_def)

lemma getitem_stats:
  assumes "getitem df_stock ''Close'' = Inr close"
      and "getitem df_stock ''High'' = Inr high"
      and "getitem df_stock ''Low'' = Inr low"
  shows "statistics_historical_data fm df_stock =
     Inr \<lparr>volatility = annualize (std_series (fillna0 (pct_change fm close))),
          cumulative_return = total_return (fillna0 (pct_change fm close)),
          high_price = max_series high, low_price = min_series low,
          median_price = median_series close, mean_price = mean_series close,
          standard_deviation = std_series close,
          coefficient_variation = fmul (fdiv (std_series close) (mean_series close)) (Num 100)\<rparr>"
  using assms by (simp add: statistics_historical_data_def Let_def)

section \<open>The cumulative return\<close>

lemma total_return_Num:
  "total_return (map Num rs) = Num ((prod_list (map (\<lambda>r. 1 + r) rs) - 1) * 100)"
proof -
  have "map (fadd (Num 1)) (map Num rs) = map Num (map (\<lambda>r. 1 + r) rs)" by simp
  then show ?thesis
    unfolding total_return_def by (simp add: fsub_def del: map_map)
qed

lemma mset_sort_values_desc:
  assumes "sorts srt"
  shows "mset (sort_values_desc srt rows) = mset rows"
proof -
  have "mset (srt xs) = mset xs" for xs using assms unfolding sorts_def by blast
  then show ?thesis by (simp add: sort_values_desc_def)
qed

lemma set_sort_values_desc: "sorts srt \<Longrightarrow> set (sort_values_desc srt rows) = set rows"
  using mset_sort_values_desc [THEN mset_eq_setD] by blast

lemma reduce_cols_mem: "(t, c) \<in> set (cols df) \<Longrightarrow> (t, f c) \<in> set (reduce_cols f df)"
  by (force simp add: reduce_cols_def)

text \<open>
  C5, as stated, fails for \<^verbatim>\<open>df_stocks_returns_ranking\<close>: for the returns 0 and 1/300 it
  reports 0.33, which is not \<open>((1 + 0) (1 + 1/300) - 1) 100 = 1/3\<close>; line 191 rounds the
  value of line 190 to two decimals.
\<close>

theorem cumulative_return_unrounded_only_in_statistics:
  "df_stocks_returns_ranking (sort_key row_key) small_gain
     = [(''VALE3.SA'', Num 1), (''PETR4.SA'', Num (33 / 100))]
   \<and> Num (33 / 100) \<noteq> Num (((1 + 0) * (1 + 1 / 300) - 1) * 100)"
  by (simp add: df_stocks_returns_ranking_def sort_values_desc_def reduce_cols_def
      total_return_def prod_series_def dropna_def fsub_def row_key_def rint_def small_gain_def)

text \<open>
  C5, amended: for closing prices whose every price before the last is not zero, and \<open>r\<close>
  their return series, the Cumulative Return of \<^verbatim>\<open>statistics_historical_data\<close> is the
  product of the \<open>1 + r[i]\<close>, less one, times 100; for every column \<open>r\<close> of finite returns,
  \<^verbatim>\<open>df_stocks_returns_ranking\<close> has the row of that ticker with that same quantity
  rounded to two decimals.
\<close>

theorem cumulative_return_formula:
  assumes "sorts srt"
  shows "(\<forall>ps high low. (\<forall>i. Suc i < length ps \<longrightarrow> ps ! i \<noteq> 0)
            \<and> getitem df_stock ''Close'' = Inr (map Num ps)
            \<and> getitem df_stock ''High'' = Inr high \<and> getitem df_stock ''Low'' = Inr low \<longrightarrow>
            (\<exists>s. statistics_historical_data fm df_stock = Inr s
                \<and> cumulative_return s
                    = Num ((prod_list (map (\<lambda>r. 1 + r) (spec_returns ps)) - 1) * 100)))
       \<and> (\<forall>t rs. (t, map Num rs) \<in> set (cols df_close_returns) \<longrightarrow>
            (t, round2 (Num ((prod_list (map (\<lambda>r. 1 + r) rs) - 1) * 100)))
              \<in> set (df_stocks_returns_ranking srt df_close_returns))"
proof -
  have a: "\<exists>s. statistics_historical_data fm df_stock = Inr s
                \<and> cumulative_return s
                    = Num ((prod_list (map (\<lambda>r. 1 + r) (spec_returns ps)) - 1) * 100)"
    if "(\<forall>i. Suc i < length ps \<longrightarrow> ps ! i \<noteq> 0)
            \<and> getitem df_stock ''Close'' = Inr (map Num ps)
            \<and> getitem df_stock ''High'' = Inr high \<and> getitem df_stock ''Low'' = Inr low"
    for ps high low
  proof -
    from that have "fillna0 (pct_change fm (map Num ps)) = map Num (spec_returns ps)"
      by (simp add: returns_Num)
    with that show ?thesis by (simp add: getitem_stats total_return_Num)
  qed
  have b: "(t, round2 (Num ((prod_list (map (\<lambda>r. 1 + r) rs) - 1) * 100)))
              \<in> set (df_stocks_returns_ranking srt df_close_returns)"
    if "(t, map Num rs) \<in> set (cols df_close_returns)" for t rs
  proof -
    from that have "(t, total_return (map Num rs)) \<in> set (reduce_cols total_return df_close_returns)"
      by (rule reduce_cols_mem)
    then have "(t, total_return (map Num rs))
        \<in> set (sort_values_desc srt (reduce_cols total_return df_close_returns))"
      by (simp add: set_sort_values_desc [OF assms])
    then have "(\<lambda>(t, v). (t, round2 v)) (t, total_return (map Num rs))
        \<in> set (df_stocks_returns_ranking srt df_close_returns)"
      unfolding df_stocks_returns_ranking_def set_map by (rule imageI)
    then show ?thesis by (simp add: total_return_Num)
  qed
  from a b show ?thesis by blast
qed

text \<open>
  C5, amended, at the closing prices 100, 110, 99 and their returns 0, 1/10, -1/10: the
  cumulative return is -1 percent.
\<close>

theorem cumulative_return_formula_witness:
  "sorts (sort_key row_key)
   \<and> (\<exists>s. statistics_historical_data Pad three_bars = Inr s \<and> cumulative_return s = Num (- 1))
   \<and> (''PETR4.SA'', Num (- 1)) \<in> set (df_stocks_returns_ranking (sort_key row_key) two_returns)"
proof -
  have nz: "\<forall>i. Suc i < length [100, 110, 99 :: real] \<longrightarrow> [100, 110, 99 :: real] ! i \<noteq> 0"
    by (simp add: nth_Cons')
  have g: "getitem three_bars ''Close'' = Inr (map Num [100, 110, 99])"
    "getitem three_bars ''High'' = Inr [Num 101, Num 112, Num 110]"
    "getitem three_bars ''Low'' = Inr [Num 99, Num 100, Num 98]"
    by (simp_all add: getitem_def three_bars_def)
  have m: "(''PETR4.SA'', map Num [0, 1 / 10, - (1 / 10)]) \<in> set (cols two_returns)"
    by (simp add: two_returns_def)
  have sr: "spec_returns [100, 110, 99] = [0, 1 / 10, - (1 / 10)]"
    by (simp add: spec_returns_def upt_rec)
  have v: "(prod_list (map (\<lambda>r. 1 + r) [0, 1 / 10, - (1 / 10 :: real)]) - 1) * 100 = - 1"
    by simp
  have rd: "round2 (Num (- 1)) = Num (- 1)" by (simp add: rint_def)
  from cumulative_return_formula [OF sorts_sort_key, of three_bars Pad two_returns]
  have "(\<exists>s. statistics_historical_data Pad three_bars = Inr s
            \<and> cumulative_return s = Num ((prod_list (map (\<lambda>r. 1 + r) (spec_returns [100, 110, 99])) - 1) * 100))
      \<and> (''PETR4.SA'', round2 (Num ((prod_list (map (\<lambda>r. 1 + r) [0, 1 / 10, - (1 / 10)]) - 1) * 100)))
          \<in> set (df_stocks_returns_ranking (sort_key row_key) two_returns)"
    using nz g m by blast
  then show ?thesis unfolding sr v rd using sorts_sort_key by blast
qed

section \<open>The annualized volatility and the standard deviation\<close>

lemma annualize_Num: "annualize (Num s) = Num (s * sqrt 252 * 100)"
  by (simp add: annualize_def)

lemma sample_std_calm: "sample_std [0, 1 / 900, - (1 / 225)] * sqrt 252 * 100 = 14 / 3"
proof -
  have "sample_std [0, 1 / 900, - (1 / 225)] = sqrt (7 / 810000)"
    by (simp add: sample_std_def power2_eq_square)
  moreover have "sqrt (7 / 810000) * sqrt 252 = sqrt ((7 / 150)\<^sup>2)"
    unfolding real_sqrt_mult [symmetric] by (simp add: power2_eq_square)
  ultimately have e: "sample_std [0, 1 / 900, - (1 / 225)] * sqrt 252 = 7 / 150"
    by simp
  show ?thesis unfolding e by simp
qed

text \<open>
  C6, as stated, fails for \<^verbatim>\<open>df_annualized_volatility\<close>: for the returns 0, 1/900,
  -1/225 it reports 4.67, while the sample standard deviation times the root of 252
  times 100 is 14/3; line 227 rounds to two decimals.
\<close>

theorem volatility_ranking_is_rounded:
  "df_annualized_volatility (sort_key row_key) calm_returns
     = [(''PETR4.SA'', Num (467 / 100)), (''VALE3.SA'', Num 0)]
   \<and> Num (467 / 100) \<noteq> Num (sample_std [0, 1 / 900, - (1 / 225)] * sqrt 252 * 100)"
proof -
  have p: "std_series [Num 0, Num (1 / 900), Num (- (1 / 225))]
      = Num (sample_std [0, 1 / 900, - (1 / 225)])"
    using std_series_Num [of "[0, 1 / 900, - (1 / 225)]"] by simp
  have v: "std_series [Num 0, Num 0, Num 0] = Num (sample_std [0, 0, 0])"
    using std_series_Num [of "[0, 0, 0]"] by simp
  have z: "sample_std [0, 0, 0] = 0" by (simp add: sample_std_def)
  have r1: "rint (1400 / 3) = 467" by (simp add: rint_def)
  have r0: "rint 0 = 0" by (simp add: rint_def)
  have "reduce_cols (\<lambda>c. round2 (annualize (std_series c))) calm_returns
      = [(''PETR4.SA'', Num (467 / 100)), (''VALE3.SA'', Num 0)]"
    by (simp add: reduce_cols_def calm_returns_def p v z annualize_Num sample_std_calm r1 r0)
  then have "df_annualized_volatility (sort_key row_key) calm_returns
     = [(''PETR4.SA'', Num (467 / 100)), (''VALE3.SA'', Num 0)]"
    by (simp add: df_annualized_volatility_def sort_values_desc_def row_key_def)
  then show ?thesis by (simp add: sample_std_calm)
qed

text \<open>
  C6, amended: for at least two closing prices, every one before the last not zero, the
  Volatility of \<^verbatim>\<open>statistics_historical_data\<close> is the sample standard deviation (divisor
  \<open>n - 1\<close>) of their return series times the root of 252 times 100, and its Standard
  Deviation is the sample standard deviation of the closing prices; for every column of
  at least two finite returns, \<^verbatim>\<open>df_annualized_volatility\<close> has the row of that ticker
  with the sample standard deviation times the root of 252 times 100, rounded to two
  decimals.
\<close>

theorem volatility_formula:
  assumes "sorts srt"
  shows "(\<forall>ps high low. 2 \<le> length ps \<and> (\<forall>i. Suc i < length ps \<longrightarrow> ps ! i \<noteq> 0)
            \<and> getitem df_stock ''Close'' = Inr (map Num ps)
            \<and> getitem df_stock ''High'' = Inr high \<and> getitem df_stock ''Low'' = Inr low \<longrightarrow>
            (\<exists>s. statistics_historical_data fm df_stock = Inr s
                \<and> volatility s = Num (sample_std (spec_returns ps) * sqrt 252 * 100)
                \<and> standard_deviation s = Num (sample_std ps)))
       \<and> (\<forall>t rs. 2 \<le> length rs \<and> (t, map Num rs) \<in> set (cols df_close_returns) \<longrightarrow>
            (t, round2 (Num (sample_std rs * sqrt 252 * 100)))
              \<in> set (df_annualized_volatility srt df_close_returns))"
proof -
  have a: "\<exists>s. statistics_historical_data fm df_stock = Inr s
                \<and> volatility s = Num (sample_std (spec_returns ps) * sqrt 252 * 100)
                \<and> standard_deviation s = Num (sample_std ps)"
    if "2 \<le> length ps \<and> (\<forall>i. Suc i < length ps \<longrightarrow> ps ! i \<noteq> 0)
            \<and> getitem df_stock ''Close'' = Inr (map Num ps)
            \<and> getitem df_stock ''High'' = Inr high \<and> getitem df_stock ''Low'' = Inr low"
    for ps high low
  proof -
    from that have r: "fillna0 (pct_change fm (map Num ps)) = map Num (spec_returns ps)"
      by (simp add: returns_Num)
    from that have "2 \<le> length (spec_returns ps)" by (simp add: spec_returns_def)
    then have "std_series (map Num (spec_returns ps)) = Num (sample_std (spec_returns ps))"
      by (rule std_series_Num)
    moreover from that have "std_series (map Num ps) = Num (sample_std ps)"
      by (simp add: std_series_Num)
    ultimately show ?thesis using that r by (simp add: getitem_stats annualize_Num)
  qed
  have b: "(t, round2 (Num (sample_std rs * sqrt 252 * 100)))
              \<in> set (df_annualized_volatility srt df_close_returns)"
    if "2 \<le> length rs \<and> (t, map Num rs) \<in> set (cols df_close_returns)" for t rs
  proof -
    from that have "(t, round2 (annualize (std_series (map Num rs))))
        \<in> set (reduce_cols (\<lambda>c. round2 (annualize (std_series c))) df_close_returns)"
      using reduce_cols_mem [of t "map Num rs" df_close_returns
          "\<lambda>c. round2 (annualize (std_series c))"] by simp
    then have "(t, round2 (annualize (std_series (map Num rs))))
        \<in> set (df_annualized_volatility srt df_close_returns)"
      by (simp add: df_annualized_volatility_def set_sort_values_desc [OF assms])
    moreover from that have "std_series (map Num rs) = Num (sample_std rs)"
      by (simp add: std_series_Num)
    ultimately show ?thesis by (simp add: annualize_Num)
  qed
  from a b show ?thesis by blast
qed

text \<open>C6, amended, at the closing prices 100, 110, 99 and their returns.\<close>

theorem volatility_formula_witness:
  "sorts (sort_key row_key)
   \<and> (\<exists>s. statistics_historical_data Pad three_bars = Inr s
         \<and> volatility s = Num (sample_std [0, 1 / 10, - (1 / 10)] * sqrt 252 * 100)
         \<and> standard_deviation s = Num (sample_std [100, 110, 99]))
   \<and> (''PETR4.SA'', round2 (Num (sample_std [0, 1 / 10, - (1 / 10)] * sqrt 252 * 100)))
        \<in> set (df_annualized_volatility (sort_key row_key) two_returns)"
proof -
  have nz: "2 \<le> length [100, 110, 99 :: real]"
    "\<forall>i. Suc i < length [100, 110, 99 :: real] \<longrightarrow> [100, 110, 99 :: real] ! i \<noteq> 0"
    by (simp_all add: nth_Cons')
  have g: "getitem three_bars ''Close'' = Inr (map Num [100, 110, 99])"
    "getitem three_bars ''High'' = Inr [Num 101, Num 112, Num 110]"
    "getitem three_bars ''Low'' = Inr [Num 99, Num 100, Num 98]"
    by (simp_all add: getitem_def three_bars_def)
  have m: "2 \<le> length [0, 1 / 10, - (1 / 10 :: real)]"
    "(''PETR4.SA'', map Num [0, 1 / 10, - (1 / 10)]) \<in> set (cols two_returns)"
    by (simp_all add: two_returns_def)
  have sr: "spec_returns [100, 110, 99] = [0, 1 / 10, - (1 / 10)]"
    by (simp add: spec_returns_def upt_rec)
  from volatility_formula [OF sorts_sort_key, of three_bars Pad two_returns]
  have "(\<exists>s. statistics_historical_data Pad three_bars = Inr s
            \<and> volatility s = Num (sample_std (spec_returns [100, 110, 99]) * sqrt 252 * 100)
            \<and> standard_deviation s = Num (sample_std [100, 110, 99]))
      \<and> (''PETR4.SA'', round2 (Num (sample_std [0, 1 / 10, - (1 / 10)] * sqrt 252 * 100)))
          \<in> set (df_annualized_volatility (sort_key row_key) two_returns)"
    using nz g m by blast
  then show ?thesis unfolding sr using sorts_sort_key by blast
qed

section \<open>The cumulative-return series and the ranking\<close>

lemma fadd_one_NaN [simp]: "fadd (Num 1) x = NaN \<longleftrightarrow> x = NaN"
  by (cases x) simp_all

lemma dropna_id: "NaN \<notin> set xs \<Longrightarrow> dropna xs = xs"
  by (induction xs) (auto simp add: dropna_def)

lemma cumprod_from_length [simp]: "length (cumprod_from acc xs) = length xs"
  by (induction xs arbitrary: acc) simp_all

lemma last_cumprod_from:
  "xs \<noteq> [] \<Longrightarrow> NaN \<notin> set xs \<Longrightarrow> last (cumprod_from acc xs) = foldl fmul acc xs"
proof (induction xs arbitrary: acc)
  case Nil
  then show ?case by simp
next
  case (Cons x xs)
  show ?case
  proof (cases "xs = []")
    case True
    with Cons.prems show ?thesis by simp
  next
    case False
    then have "cumprod_from (fmul acc x) xs \<noteq> []"
      by (metis cumprod_from_length length_0_conv)
    moreover from Cons.prems have "x \<noteq> NaN" "NaN \<notin> set xs" by auto
    moreover from this False have "last (cumprod_from (fmul acc x) xs) = foldl fmul (fmul acc x) xs"
      by (simp add: Cons.IH)
    ultimately show ?thesis by simp
  qed
qed

lemma last_cumprod:
  assumes "c \<noteq> []" "NaN \<notin> set c"
  shows "last (cumprod (map (fadd (Num 1)) c)) = prod_series (map (fadd (Num 1)) c)"
proof -
  have "fadd (Num 1) x \<noteq> NaN" if "x \<in> set c" for x
    using that assms(2) by (cases x) auto
  then have n: "NaN \<notin> set (map (fadd (Num 1)) c)" by (metis (no_types) imageE set_map)
  have "map (fadd (Num 1)) c \<noteq> []" using assms(1) by simp
  then show ?thesis
    unfolding cumprod_def prod_series_def dropna_id [OF n] using n by (rule last_cumprod_from)
qed

text \<open>A return table made by \<^verbatim>\<open>df_returns\<close> has no NaN cell: \<^verbatim>\<open>fillna(0)\<close> removed them.\<close>

lemma returns_no_nan: "NaN \<notin> set (fillna0 xs)"
  by (auto simp add: fillna0_def)

lemma df_returns_no_nan: "(t, c) \<in> set (cols (df_returns fm df)) \<Longrightarrow> NaN \<notin> set c"
  by (auto simp add: df_returns_def map_cols_def returns_no_nan)

text \<open>
  C7: for every non-empty ticker column of a return table (no NaN cell, as
  \<^verbatim>\<open>df_returns\<close> leaves it), the last row of the column that
  \<^verbatim>\<open>df_stocks_returns_period\<close> makes of it is the value of that ticker's row in
  \<^verbatim>\<open>df_stocks_returns_ranking\<close>; both are rounded to two decimals.
\<close>

theorem period_last_row_is_ranking_value:
  assumes "sorts srt" and "k < length (cols df)" and "cols df ! k = (t, c)"
      and "c \<noteq> []" and "NaN \<notin> set c"
  shows "\<exists>pc. cols (df_stocks_returns_period df) ! k = (t, pc) \<and> pc \<noteq> []
           \<and> (t, last pc) \<in> set (df_stocks_returns_ranking srt df)"
proof -
  let ?g = "\<lambda>x. round2 (fmul (fsub x (Num 1)) (Num 100))"
  let ?pc = "map ?g (cumprod (map (fadd (Num 1)) c))"
  have col: "cols (df_stocks_returns_period df) ! k = (t, ?pc)"
    using assms(2,3) unfolding df_stocks_returns_period_def by (rule map_cols_nth)
  have ne: "cumprod (map (fadd (Num 1)) c) \<noteq> []"
    using assms(4) by (metis cumprod_def cumprod_from_length length_0_conv length_map)
  then have "last ?pc = ?g (last (cumprod (map (fadd (Num 1)) c)))"
    by (rule last_map)
  then have l: "last ?pc = round2 (total_return c)"
    by (simp add: last_cumprod [OF assms(4,5)] total_return_def)
  have "(t, c) \<in> set (cols df)" using assms(2,3) by (metis nth_mem)
  then have "(t, total_return c) \<in> set (reduce_cols total_return df)"
    by (rule reduce_cols_mem)
  then have "(t, total_return c) \<in> set (sort_values_desc srt (reduce_cols total_return df))"
    by (simp add: set_sort_values_desc [OF assms(1)])
  then have "(\<lambda>(t, v). (t, round2 v)) (t, total_return c)
      \<in> set (df_stocks_returns_ranking srt df)"
    unfolding df_stocks_returns_ranking_def set_map by (rule imageI)
  then have "(t, last ?pc) \<in> set (df_stocks_returns_ranking srt df)"
    by (simp add: l)
  with col ne show ?thesis by simp
qed

text \<open>C7, at the returns of the closing prices 100, 110, 99.\<close>

theorem period_last_row_is_ranking_value_witness:
  "sorts (sort_key row_key) \<and> 0 < length (cols (df_returns Pad two_closes))
   \<and> cols (df_returns Pad two_closes) ! 0 = (''PETR4.SA'', [Num 0, Num (1 / 10), Num (- (1 / 10))])
   \<and> [Num 0, Num (1 / 10), Num (- (1 / 10))] \<noteq> []
   \<and> NaN \<notin> set [Num 0, Num (1 / 10), Num (- (1 / 10))]
   \<and> cols (df_stocks_returns_period (df_returns Pad two_closes)) ! 0
        = (''PETR4.SA'', [Num 0, Num 10, Num (- 1)])
   \<and> (''PETR4.SA'', Num (- 1))
        \<in> set (df_stocks_returns_ranking (sort_key row_key) (df_returns Pad two_closes))"
proof -
  have r: "df_returns Pad two_closes = two_returns"
    by (simp add: df_returns_def map_cols_def two_closes_def two_returns_def
        pct_change_def fillna0_def shift1_def fsub_def)
  have k: "0 < length (cols two_returns)"
    "cols two_returns ! 0 = (''PETR4.SA'', [Num 0, Num (1 / 10), Num (- (1 / 10))])"
    by (simp_all add: two_returns_def)
  have c: "[Num 0, Num (1 / 10), Num (- (1 / 10))] \<noteq> []"
    "NaN \<notin> set [Num 0, Num (1 / 10), Num (- (1 / 10))]" by simp_all
  have p: "cols (df_stocks_returns_period two_returns) ! 0
        = (''PETR4.SA'', [Num 0, Num 10, Num (- 1)])"
    by (simp add: df_stocks_returns_period_def map_cols_def two_returns_def cumprod_def
        fsub_def rint_def)
  from period_last_row_is_ranking_value [OF sorts_sort_key k c] p
  have "(''PETR4.SA'', Num (- 1)) \<in> set (df_stocks_returns_ranking (sort_key row_key) two_returns)"
    by auto
  with sorts_sort_key k c p show ?thesis unfolding r by blast
qed

section \<open>The order of the rankings\<close>












section \<open>The correlation matrix is symmetric, with ones on the diagonal\<close>

lemma finite_pairs_swap:
  "finite_pairs ys xs = map (\<lambda>(a, b). (b, a)) (finite_pairs xs ys)"
  by (induction xs ys rule: finite_pairs.induct) simp_all

lemma corr_pair_sym: "corr_pair xs ys = corr_pair ys xs"
proof -
  let ?ps = "finite_pairs xs ys"
  have s: "finite_pairs ys xs = map (\<lambda>(a, b). (b, a)) ?ps" by (rule finite_pairs_swap)
  have f: "map fst (map (\<lambda>(a, b). (b, a)) ?ps) = map snd ?ps"
    "map snd (map (\<lambda>(a, b). (b, a)) ?ps) = map fst ?ps"
    by (simp_all add: case_prod_beta)
  have g: "map (\<lambda>(a, b). h a b) (map (\<lambda>(a, b). (b, a)) ?ps) = map (\<lambda>(a, b). h b a) ?ps"
    for h :: "real \<Rightarrow> real \<Rightarrow> real"
    by (simp add: case_prod_beta)
  show ?thesis
    unfolding corr_pair_def [of ys xs] s Let_def f g length_map
    unfolding corr_pair_def [of xs ys] Let_def
    by (simp add: mult.commute)
qed

lemma corr_at_nth:
  "i < length (cols df) \<Longrightarrow> j < length (cols df) \<Longrightarrow>
     corr_at df i j = corr_pair (snd (cols df ! i)) (snd (cols df ! j))"
  by (simp add: corr_at_def corr_def case_prod_beta)

lemma finite_pairs_same: "finite_pairs (map Num rs) (map Num rs) = map (\<lambda>a. (a, a)) rs"
  by (induction rs) simp_all

lemma finite_pairs_neg:
  "finite_pairs (map Num rs) (map Num (map uminus rs)) = map (\<lambda>a. (a, - a)) rs"
  by (induction rs) simp_all

lemma sum_sq_dev_nonneg: "0 \<le> sum_sq_dev rs"
  unfolding sum_sq_dev_def Let_def by (rule sum_list_nonneg) auto

lemma sum_list_uminus: "sum_list (map uminus rs) = - sum_list (rs :: real list)"
  by (induction rs) simp_all

lemma corr_pair_same:
  assumes "sum_sq_dev rs \<noteq> 0"
  shows "corr_pair (map Num rs) (map Num rs) = Num 1"
proof -
  let ?m = "sum_list rs / real (length rs)"
  let ?S = "sum_list (map (\<lambda>a. (a - ?m) * (a - ?m)) rs)"
  have S: "?S \<noteq> 0" "0 \<le> ?S"
    using assms sum_sq_dev_nonneg [of rs] by (simp_all add: sum_sq_dev_def Let_def)
  then have ne: "rs \<noteq> []" by auto
  have sq: "sqrt (?S * ?S) = ?S" using S by simp
  have "corr_pair (map Num rs) (map Num rs)
      = (if sqrt (?S * ?S) \<noteq> 0 then Num (max (- 1) (min 1 (?S / sqrt (?S * ?S)))) else NaN)"
    using ne unfolding corr_pair_def finite_pairs_same Let_def
    by (simp add: o_def del: real_sqrt_mult_self real_sqrt_abs2)
  also have "\<dots> = Num 1" unfolding sq using S by simp
  finally show ?thesis .
qed

lemma corr_pair_neg:
  assumes "sum_sq_dev rs \<noteq> 0"
  shows "corr_pair (map Num rs) (map Num (map uminus rs)) = Num (- 1)"
proof -
  let ?m = "sum_list rs / real (length rs)"
  let ?S = "sum_list (map (\<lambda>a. (a - ?m) * (a - ?m)) rs)"
  have S: "?S \<noteq> 0" "0 \<le> ?S"
    using assms sum_sq_dev_nonneg [of rs] by (simp_all add: sum_sq_dev_def Let_def)
  then have ne: "rs \<noteq> []" by auto
  have sq: "sqrt (?S * ?S) = ?S" using S by simp
  have ssy: "sum_list (map (\<lambda>a. (?m - a) * (?m - a)) rs) = ?S"
    by (rule arg_cong [where f = sum_list]) (simp add: algebra_simps)
  have "sum_list (map (\<lambda>a. (a - ?m) * (?m - a)) rs)
      = sum_list (map uminus (map (\<lambda>a. (a - ?m) * (a - ?m)) rs))"
    by (rule arg_cong [where f = sum_list]) (simp add: algebra_simps)
  then have cxy: "sum_list (map (\<lambda>a. (a - ?m) * (?m - a)) rs) = - ?S"
    unfolding sum_list_uminus .
  have "corr_pair (map Num rs) (map Num (map uminus rs))
      = (if sqrt (?S * ?S) \<noteq> 0 then Num (max (- 1) (min 1 (- ?S / sqrt (?S * ?S)))) else NaN)"
    using ne unfolding corr_pair_def finite_pairs_neg Let_def
    by (simp add: o_def sum_list_uminus ssy cxy del: real_sqrt_mult_self real_sqrt_abs2)
  also have "\<dots> = Num (- 1)" unfolding sq using S by simp
  finally show ?thesis .
qed

text \<open>
  C8, as stated, fails: two tickers with identical return series, all zero, have the
  correlation NaN, not 1.
\<close>

theorem identical_flat_series_have_no_correlation:
  "corr_at flat_returns 0 1 = NaN
   \<and> snd (cols flat_returns ! 0) = snd (cols flat_returns ! 1)"
  by (simp add: corr_at_def corr_def corr_pair_def flat_returns_def)

text \<open>
  C8, amended: the correlation matrix is symmetric; the diagonal entry of a ticker whose
  return series is finite with nonzero variance is 1; two tickers with identical return
  series of nonzero variance have correlation 1, and two tickers with exactly inverse
  return series of nonzero variance have correlation -1.
\<close>

theorem correlation_properties:
  assumes "i < length (cols df)" and "j < length (cols df)"
  shows "corr_at df i j = corr_at df j i
       \<and> (\<forall>rs. snd (cols df ! i) = map Num rs \<and> sum_sq_dev rs \<noteq> 0 \<longrightarrow>
              corr_at df i i = Num 1)
       \<and> (\<forall>rs. snd (cols df ! i) = map Num rs \<and> snd (cols df ! j) = map Num rs
              \<and> sum_sq_dev rs \<noteq> 0 \<longrightarrow> corr_at df i j = Num 1)
       \<and> (\<forall>rs. snd (cols df ! i) = map Num rs \<and> snd (cols df ! j) = map Num (map uminus rs)
              \<and> sum_sq_dev rs \<noteq> 0 \<longrightarrow> corr_at df i j = Num (- 1))"
proof -
  have a: "corr_at df i j = corr_at df j i"
    using assms by (simp add: corr_at_nth corr_pair_sym [of "snd (cols df ! i)"])
  have b: "corr_at df i i = Num 1"
    if "snd (cols df ! i) = map Num rs \<and> sum_sq_dev rs \<noteq> 0" for rs
    using that assms by (simp add: corr_at_nth corr_pair_same)
  have c: "corr_at df i j = Num 1"
    if "snd (cols df ! i) = map Num rs \<and> snd (cols df ! j) = map Num rs \<and> sum_sq_dev rs \<noteq> 0"
    for rs
    using that assms by (simp add: corr_at_nth corr_pair_same)
  have d: "corr_at df i j = Num (- 1)"
    if "snd (cols df ! i) = map Num rs \<and> snd (cols df ! j) = map Num (map uminus rs)
          \<and> sum_sq_dev rs \<noteq> 0"
    for rs
    using that assms by (simp add: corr_at_nth corr_pair_neg del: map_map)
  from a b c d show ?thesis by blast
qed

text \<open>C8, amended, at the returns 0, 1/10, -1/10, the same again and their negatives.\<close>

theorem correlation_properties_witness:
  "0 < length (cols mirrored_returns) \<and> 2 < length (cols mirrored_returns)
   \<and> 1 < length (cols mirrored_returns)
   \<and> sum_sq_dev [0, 1 / 10, - (1 / 10)] \<noteq> 0
   \<and> corr_at mirrored_returns 0 2 = corr_at mirrored_returns 2 0
   \<and> corr_at mirrored_returns 0 0 = Num 1
   \<and> corr_at mirrored_returns 0 1 = Num 1
   \<and> corr_at mirrored_returns 0 2 = Num (- 1)"
proof -
  have l: "0 < length (cols mirrored_returns)" "1 < length (cols mirrored_returns)"
    "2 < length (cols mirrored_returns)"
    by (simp_all add: mirrored_returns_def)
  have c: "snd (cols mirrored_returns ! 0) = map Num [0, 1 / 10, - (1 / 10)]"
    "snd (cols mirrored_returns ! 1) = map Num [0, 1 / 10, - (1 / 10)]"
    "snd (cols mirrored_returns ! 2) = map Num (map uminus [0, 1 / 10, - (1 / 10)])"
    by (simp_all add: mirrored_returns_def)
  have v: "sum_sq_dev [0, 1 / 10, - (1 / 10)] \<noteq> 0"
    by (simp add: sum_sq_dev_def)
  from correlation_properties [OF l(1) l(3)] correlation_properties [OF l(1) l(2)] c v l
  show ?thesis by blast
qed

section \<open>The return series of a column of prices\<close>

lemma ffill_from_length [simp]: "length (ffill_from p xs) = length xs"
  by (induction xs arbitrary: p) simp_all

lemma ffill_from_present:
  "i < length xs \<Longrightarrow> xs ! i \<noteq> NaN \<Longrightarrow> ffill_from p xs ! i = xs ! i"
proof (induction xs arbitrary: p i)
  case Nil
  then show ?case by simp
next
  case (Cons x xs)
  then show ?case by (cases i) auto
qed

lemma ffill_from_missing:
  "i < length xs \<Longrightarrow> xs ! i = NaN \<Longrightarrow>
     ffill_from p xs ! i = (if i = 0 then p else ffill_from p xs ! (i - 1))"
proof (induction xs arbitrary: p i)
  case Nil
  then show ?case by simp
next
  case (Cons x xs)
  show ?case
  proof (cases i)
    case 0
    with Cons.prems show ?thesis by simp
  next
    case (Suc j)
    with Cons.prems have j: "j < length xs" "xs ! j = NaN" by simp_all
    show ?thesis
    proof (cases "x = NaN")
      case True
      with Suc Cons.IH [OF j, of p] show ?thesis by (cases j) simp_all
    next
      case False
      with Suc Cons.IH [OF j, of x] show ?thesis by (cases j) simp_all
    qed
  qed
qed

lemma pct_change_cell:
  assumes "1 \<le> i" "i < length c"
  shows "pct_change fm c ! i
     = fsub (fdiv (filled fm c ! i) (filled fm c ! (i - 1))) (Num 1)"
proof -
  have l: "length (filled fm c) = length c" by (cases fm) (simp_all add: filled_def)
  have "pct_change fm c = map2 (\<lambda>x s. fsub (fdiv x s) (Num 1)) (filled fm c) (shift1 (filled fm c))"
    by (cases fm) (simp_all add: pct_change_def filled_def Let_def)
  moreover have "shift1 (filled fm c) ! i = filled fm c ! (i - 1)"
    using assms l by (simp add: shift1_nth)
  ultimately show ?thesis using assms l by simp
qed

lemma filled_present: "i < length c \<Longrightarrow> c ! i \<noteq> NaN \<Longrightarrow> filled fm c ! i = c ! i"
  by (cases fm) (simp_all add: filled_def ffill_from_present)

lemma self_quotient: "fsub (fdiv x x) (Num 1) = NaN \<or> fsub (fdiv x x) (Num 1) = Num 0"
  by (cases x) (simp_all add: fsub_def signed_inf_def)

lemma return_of_missing:
  assumes "1 \<le> i" "i < length c" "c ! i = NaN"
  shows "fillna0 (pct_change fm c) ! i = Num 0"
proof -
  let ?q = "pct_change fm c ! i"
  have "?q = NaN \<or> ?q = Num 0"
  proof (cases fm)
    case Pad
    have "ffill_from NaN c ! i = ffill_from NaN c ! (i - 1)"
      using ffill_from_missing [OF assms(2,3), of NaN] assms(1) by simp
    then have "filled fm c ! i = filled fm c ! (i - 1)" using Pad by (simp add: filled_def)
    then show ?thesis
      using self_quotient [of "filled fm c ! i"] by (simp add: pct_change_cell [OF assms(1,2)])
  next
    case NoFill
    then show ?thesis using assms by (simp add: pct_change_cell filled_def)
  qed
  then show ?thesis using assms(2) by (auto simp add: fillna0_def)
qed

text \<open>
  C4, as stated, fails: the second ticker has no price on the first day, so
  \<^verbatim>\<open>df_stocks_close\<close> gives its column a missing first cell, and its return at index 1
  is 0 with either fill method, where \<open>price[1] / price[0] - 1\<close> is undefined (NaN, not 0).
\<close>

theorem missing_price_gives_zero_return:
  "df_stocks_close staggered_fetch ''1y'' [''PETR4.SA'', ''VALE3.SA''] = Inr staggered_closes
   \<and> cols staggered_closes ! 1 = (''VALE3.SA'', [NaN, Num 5, Num 6])
   \<and> cols (df_returns Pad staggered_closes) ! 1 = (''VALE3.SA'', [Num 0, Num 0, Num (1 / 5)])
   \<and> cols (df_returns NoFill staggered_closes) ! 1 = (''VALE3.SA'', [Num 0, Num 0, Num (1 / 5)])
   \<and> fsub (fdiv (Num 5) NaN) (Num 1) \<noteq> Num 0"
  by (simp add: df_stocks_close_def staggered_fetch_def staggered_closes_def setitem_def
      empty_frame_def df_returns_def map_cols_def pct_change_def fillna0_def shift1_def fsub_def)

text \<open>
  C4, amended: for every non-empty price column, each column on its own, the return
  series \<open>r\<close> that \<^verbatim>\<open>df_returns\<close> puts in the column of the same ticker, and from which
  \<^verbatim>\<open>statistics_historical_data\<close> computes its volatility and cumulative return, has the
  length of the column, no NaN, \<open>r[0] = 0\<close> and, at every later index where both
  \<open>price[i]\<close> and \<open>price[i-1]\<close> are present and not both zero,
  \<open>r[i] = price[i] / price[i-1] - 1\<close> (an infinity where only the previous price is zero);
  where \<open>price[i]\<close> is missing \<open>r[i] = 0\<close>, and without forward fill \<open>r[i] = 0\<close> wherever
  the quotient is undefined.
\<close>

theorem return_series_where_prices_present:
  assumes "c \<noteq> []" and "r = fillna0 (pct_change fm c)"
  shows "length r = length c \<and> r ! 0 = Num 0 \<and> NaN \<notin> set r
       \<and> (\<forall>i a b. 1 \<le> i \<and> i < length c \<and> c ! i = Num a \<and> c ! (i - 1) = Num b \<and> b \<noteq> 0 \<longrightarrow>
              r ! i = Num (a / b - 1))
       \<and> (\<forall>i a b. 1 \<le> i \<and> i < length c \<and> c ! i = Num a \<and> c ! (i - 1) = Num b
              \<and> (a \<noteq> 0 \<or> b \<noteq> 0) \<longrightarrow>
              r ! i = fsub (fdiv (Num a) (Num b)) (Num 1))
       \<and> (\<forall>i. 1 \<le> i \<and> i < length c \<and> c ! i = NaN \<longrightarrow> r ! i = Num 0)
       \<and> (fm = NoFill \<longrightarrow>
            (\<forall>i. 1 \<le> i \<and> i < length c \<and> fsub (fdiv (c ! i) (c ! (i - 1))) (Num 1) = NaN \<longrightarrow>
                 r ! i = Num 0))
       \<and> (\<forall>k t. k < length (cols df) \<and> cols df ! k = (t, c) \<longrightarrow>
              cols (df_returns fm df) ! k = (t, r))
       \<and> (\<forall>high low. getitem df_stock ''Close'' = Inr c
              \<and> getitem df_stock ''High'' = Inr high \<and> getitem df_stock ''Low'' = Inr low \<longrightarrow>
              (\<exists>s. statistics_historical_data fm df_stock = Inr s
                  \<and> volatility s = annualize (std_series r)
                  \<and> cumulative_return s = total_return r))"
proof -
  have a: "length r = length c" using assms(2) by simp
  have b: "r ! 0 = Num 0" using assms by (simp add: returns_first)
  have n: "NaN \<notin> set r" using assms(2) by (simp add: returns_no_nan)
  have q: "pct_change fm c ! i = fsub (fdiv (Num a) (Num b)) (Num 1)"
    if "1 \<le> i" "i < length c" "c ! i = Num a" "c ! (i - 1) = Num b" for i a b
  proof -
    have "filled fm c ! i = Num a" using that by (simp add: filled_present)
    moreover have "filled fm c ! (i - 1) = Num b" using that by (simp add: filled_present)
    ultimately show ?thesis using that by (simp add: pct_change_cell)
  qed
  have c1: "r ! i = Num (a / b - 1)"
    if "1 \<le> i \<and> i < length c \<and> c ! i = Num a \<and> c ! (i - 1) = Num b \<and> b \<noteq> 0" for i a b
    using that assms(2) q [of i a b] by (simp add: fillna0_def fsub_def)
  have c2: "r ! i = fsub (fdiv (Num a) (Num b)) (Num 1)"
    if "1 \<le> i \<and> i < length c \<and> c ! i = Num a \<and> c ! (i - 1) = Num b \<and> (a \<noteq> 0 \<or> b \<noteq> 0)"
    for i a b
  proof -
    have "fsub (fdiv (Num a) (Num b)) (Num 1) \<noteq> NaN"
      using that by (auto simp add: fsub_def signed_inf_def)
    then show ?thesis using that assms(2) q [of i a b] by (simp add: fillna0_def)
  qed
  have c3: "r ! i = Num 0" if "1 \<le> i \<and> i < length c \<and> c ! i = NaN" for i
    using that assms(2) by (simp add: return_of_missing)
  have c4: "r ! i = Num 0"
    if "fm = NoFill" "1 \<le> i \<and> i < length c \<and> fsub (fdiv (c ! i) (c ! (i - 1))) (Num 1) = NaN"
    for i
    using that assms(2) by (simp add: fillna0_def pct_change_cell filled_def)
  have d: "cols (df_returns fm df) ! k = (t, r)"
    if "k < length (cols df) \<and> cols df ! k = (t, c)" for k t
    using that assms(2) by (simp add: df_returns_def map_cols_nth)
  have e: "\<exists>s. statistics_historical_data fm df_stock = Inr s
                  \<and> volatility s = annualize (std_series r)
                  \<and> cumulative_return s = total_return r"
    if "getitem df_stock ''Close'' = Inr c
              \<and> getitem df_stock ''High'' = Inr high \<and> getitem df_stock ''Low'' = Inr low"
    for high low
    using that assms(2) by (simp add: getitem_stats)
  from a b n c1 c2 c3 c4 d e show ?thesis by blast
qed

text \<open>
  C4, amended, at the closing prices 100, 110, 99 and at the column with a missing first
  cell followed by 5 and 6.
\<close>

theorem return_series_where_prices_present_witness:
  "[Num 100, Num 110, Num 99] \<noteq> [] \<and> [NaN, Num 5, Num 6] \<noteq> []
   \<and> fillna0 (pct_change Pad [Num 100, Num 110, Num 99]) = [Num 0, Num (1 / 10), Num (- (1 / 10))]
   \<and> cols (df_returns Pad two_closes) ! 0 = (''PETR4.SA'', [Num 0, Num (1 / 10), Num (- (1 / 10))])
   \<and> (\<exists>s. statistics_historical_data Pad three_bars = Inr s
         \<and> volatility s = annualize (std_series [Num 0, Num (1 / 10), Num (- (1 / 10))])
         \<and> cumulative_return s = total_return [Num 0, Num (1 / 10), Num (- (1 / 10))])
   \<and> fsub (fdiv (Num 5) NaN) (Num 1) = NaN
   \<and> fillna0 (pct_change NoFill [NaN, Num 5, Num 6]) ! 1 = Num 0
   \<and> fillna0 (pct_change NoFill [NaN, Num 5, Num 6]) ! 2 = Num (6 / 5 - 1)
   \<and> cols (df_returns NoFill staggered_closes) ! 1
        = (''VALE3.SA'', fillna0 (pct_change NoFill [NaN, Num 5, Num 6]))"
proof -
  let ?c = "[Num 100, Num 110, Num 99]" and ?g = "[NaN, Num 5, Num 6]"
  have r: "[Num 0, Num (1 / 10), Num (- (1 / 10))] = fillna0 (pct_change Pad ?c)"
    by (simp add: pct_change_def fillna0_def shift1_def fsub_def)
  have ne: "?c \<noteq> []" "?g \<noteq> []" by simp_all
  have g: "getitem three_bars ''Close'' = Inr ?c"
    "getitem three_bars ''High'' = Inr [Num 101, Num 112, Num 110]"
    "getitem three_bars ''Low'' = Inr [Num 99, Num 100, Num 98]"
    by (simp_all add: getitem_def three_bars_def)
  have k: "0 < length (cols two_closes)" "cols two_closes ! 0 = (''PETR4.SA'', ?c)"
    by (simp_all add: two_closes_def)
  have k2: "1 < length (cols staggered_closes)" "cols staggered_closes ! 1 = (''VALE3.SA'', ?g)"
    by (simp_all add: staggered_closes_def)
  have i1: "(1::nat) \<le> 1 \<and> 1 < length ?g \<and> fsub (fdiv (?g ! 1) (?g ! (1 - 1))) (Num 1) = NaN"
    by (simp add: fsub_def)
  have i2: "(1::nat) \<le> 2 \<and> 2 < length ?g \<and> ?g ! 2 = Num 6 \<and> ?g ! (2 - 1) = Num 5 \<and> (5::real) \<noteq> 0"
    by simp
  have q: "fsub (fdiv (Num 5) NaN) (Num 1) = NaN" by simp
  note w1 = return_series_where_prices_present [OF ne(1) r, of two_closes three_bars]
  note w2 = return_series_where_prices_present [OF ne(2) refl, of NoFill staggered_closes]
  from w1 g k have a: "cols (df_returns Pad two_closes) ! 0
        = (''PETR4.SA'', [Num 0, Num (1 / 10), Num (- (1 / 10))])" by blast
  from w1 g have b: "\<exists>s. statistics_historical_data Pad three_bars = Inr s
         \<and> volatility s = annualize (std_series [Num 0, Num (1 / 10), Num (- (1 / 10))])
         \<and> cumulative_return s = total_return [Num 0, Num (1 / 10), Num (- (1 / 10))]" by blast
  from w2 i1 have c: "fillna0 (pct_change NoFill ?g) ! 1 = Num 0" by blast
  from w2 i2 have d: "fillna0 (pct_change NoFill ?g) ! 2 = Num (6 / 5 - 1)" by blast
  from w2 k2 have e: "cols (df_returns NoFill staggered_closes) ! 1
        = (''VALE3.SA'', fillna0 (pct_change NoFill ?g))" by blast
  from ne r [symmetric] a b q c d e show ?thesis by blast
qed

end
